theory Spec2Isabelle
  imports Complex_Main "HOL-Library.Multiset" "HOL-Library.AList"
begin

section \<open>Offer ranking: the data model\<close>

text \<open>
  The development follows \<^verbatim>\<open>app.py\<close>: the flattening of a catalog entry into offer rows
  (\<^verbatim>\<open>chat\<close>), the scoring of a frame of rows by the fallback formula or by the loaded
  pipeline, and the ranking (\<^verbatim>\<open>infer_topk\<close>).

  Numbers are exact rationals: the model idealises binary floating point (no rounding, no
  overflow), and \<open>1e-6\<close> is the rational \<open>1 / 1000000\<close>. A cell of a frame is a JSON value:
  \<open>Null\<close> stands for both Python's \<open>None\<close> and the float NaN (pandas treats both as missing),
  \<open>Num\<close> for a number (a JSON boolean is the number 1 or 0, as it is to pandas arithmetic; a
  string that spells a number is the number it spells, as \<^verbatim>\<open>pd.to_numeric\<close> parses it),
  \<open>Str\<close> for any other string and \<open>Dict\<close> for a nested object.
\<close>

datatype cell = Null | Num rat | Str string | Dict "(string \<times> cell) list"

type_synonym pydict = "(string \<times> cell) list"

text \<open>\<^verbatim>\<open>d.get(k, default)\<close> on a dictionary.\<close>

definition dict_get :: "pydict \<Rightarrow> string \<Rightarrow> cell \<Rightarrow> cell" where
  "dict_get d k dflt = (case map_of d k of None \<Rightarrow> dflt | Some v \<Rightarrow> v)"

text \<open>Python truthiness of a value.\<close>

fun truthy :: "cell \<Rightarrow> bool" where
  "truthy Null = False"
| "truthy (Num r) = (r \<noteq> 0)"
| "truthy (Str s) = (s \<noteq> [])"
| "truthy (Dict d) = (d \<noteq> [])"

text \<open>
  A catalog entry. An absent \<^verbatim>\<open>variants\<close>, \<^verbatim>\<open>offers\<close> or \<^verbatim>\<open>specifications\<close> key is the
  empty list (\<^verbatim>\<open>.get("variants", [])\<close>, \<^verbatim>\<open>.get("offers", [])\<close>,
  \<^verbatim>\<open>.get("specifications", {})\<close>); \<open>brand\<close> is the value of \<^verbatim>\<open>product.get("brand")\<close>.
\<close>

record variant =
  specifications :: pydict
  offers :: "pydict list"

record product =
  product_name :: string
  brand :: cell
  variants :: "variant list"

text \<open>
  A pandas frame: the row labels and the columns in order, each column holding one cell
  per row.
\<close>

record dataframe =
  index :: "nat list"
  columns :: "(string \<times> cell list) list"

definition wf_frame :: "dataframe \<Rightarrow> bool" where
  "wf_frame df \<longleftrightarrow>
     distinct (map fst (columns df)) \<and>
     list_all (\<lambda>cv. length (snd cv) = length (index df)) (columns df)"

text \<open>
  \<^verbatim>\<open>pd.DataFrame(rows)\<close> for a list of dictionaries: the columns are the keys in order of
  first appearance, a key a row lacks is a missing cell, the rows are labelled from 0.
\<close>

definition DataFrame :: "pydict list \<Rightarrow> dataframe" where
  "DataFrame rows =
     \<lparr>index = [0..<length rows],
      columns = map (\<lambda>k. (k, map (\<lambda>r. dict_get r k Null) rows))
                    (rev (remdups (rev (concat (map (map fst) rows)))))\<rparr>"

text \<open>\<^verbatim>\<open>df[c] = values\<close>: replaces the column in place, or appends a new last column.\<close>

definition set_column :: "string \<Rightarrow> cell list \<Rightarrow> dataframe \<Rightarrow> dataframe" where
  "set_column c vs df = df\<lparr>columns := AList.update c vs (columns df)\<rparr>"

section \<open>Outcomes\<close>

text \<open>
  The exceptions the modelled code can raise, and one outcome that is no exception:
  \<open>NonFiniteScore\<close> marks a zero denominator in the fallback formula, where pandas
  returns an infinite score without raising; exact arithmetic has no value for it, so the
  model stops there and the theorems below say nothing about such a batch.
\<close>

datatype failure = ValueError | TypeError | AttributeError | KeyError | NonFiniteScore

section \<open>The fallback heuristic\<close>

text \<open>
  \<^verbatim>\<open>pd.to_numeric\<close> on a column: the empty string and the empty object are read as
  missing, any other unparsable string or nested object raises.
\<close>

fun to_numeric_cell :: "cell \<Rightarrow> failure + rat option" where
  "to_numeric_cell Null = Inr None"
| "to_numeric_cell (Num r) = Inr (Some r)"
| "to_numeric_cell (Str s) = (if s = [] then Inr None else Inl ValueError)"
| "to_numeric_cell (Dict d) = (if d = [] then Inr None else Inl TypeError)"

fun to_numeric :: "cell list \<Rightarrow> failure + rat option list" where
  "to_numeric [] = Inr []"
| "to_numeric (c # cs) =
     (case to_numeric_cell c of
        Inl e \<Rightarrow> Inl e
      | Inr x \<Rightarrow> (case to_numeric cs of Inl e \<Rightarrow> Inl e | Inr xs \<Rightarrow> Inr (x # xs)))"

definition fillna :: "rat \<Rightarrow> rat option list \<Rightarrow> rat list" where
  "fillna d xs = map (\<lambda>x. case x of None \<Rightarrow> d | Some r \<Rightarrow> r) xs"

text \<open>
  \<^verbatim>\<open>pd.to_numeric(df.get(c, d)).fillna(d)\<close>. When the frame has no column \<open>c\<close>,
  \<^verbatim>\<open>df.get\<close> returns the scalar \<open>d\<close>, \<^verbatim>\<open>pd.to_numeric\<close> returns it unchanged, and
  the call of \<^verbatim>\<open>.fillna\<close> on a number raises AttributeError.
\<close>

definition numeric_column :: "dataframe \<Rightarrow> string \<Rightarrow> rat \<Rightarrow> failure + rat list" where
  "numeric_column df c d =
     (case map_of (columns df) c of
        None \<Rightarrow> Inl AttributeError
      | Some vs \<Rightarrow> (case to_numeric vs of Inl e \<Rightarrow> Inl e | Inr xs \<Rightarrow> Inr (fillna d xs)))"

definition eps :: rat where
  "eps = 1 / 1000000"

text \<open>\<^verbatim>\<open>Series.max()\<close> of a column without missing cells; an empty column has none.\<close>

fun series_max :: "rat list \<Rightarrow> rat option" where
  "series_max [] = None"
| "series_max (x # xs) = Some (fold max xs x)"

definition fallback_formula :: "rat \<Rightarrow> rat \<Rightarrow> rat \<Rightarrow> rat \<Rightarrow> rat \<Rightarrow> rat" where
  "fallback_formula mp md p r d =
     4 / 10 * (1 - p / (mp + eps)) + 3 / 10 * (r / 5) + 3 / 10 * (1 - d / (md + eps))"

text \<open>
  Lines 73 to 77, on the three coerced columns. The operations are element-wise on
  aligned columns; an empty frame gives an empty score column.
\<close>

definition fallback_scores :: "rat list \<Rightarrow> rat list \<Rightarrow> rat list \<Rightarrow> failure + rat list" where
  "fallback_scores ps rs ds =
     (case series_max ps of
        None \<Rightarrow> Inr []
      | Some mp \<Rightarrow>
          (case series_max ds of
             None \<Rightarrow> Inr []
           | Some md \<Rightarrow>
               if mp + eps = 0 \<or> md + eps = 0 then Inl NonFiniteScore
               else Inr (map (\<lambda>(p, r, d). fallback_formula mp md p r d)
                             (zip ps (zip rs ds)))))"

text \<open>
  The fallback branch of \<^verbatim>\<open>infer_topk\<close> (lines 69 to 77): the scores and the frame as
  the assignments leave it. The formula reads back the three columns just stored.
\<close>

definition score_fallback :: "dataframe \<Rightarrow> failure + (rat list \<times> dataframe)" where
  "score_fallback df =
     (case numeric_column df ''price'' 1 of
        Inl e \<Rightarrow> Inl e
      | Inr ps \<Rightarrow>
          let df1 = set_column ''price'' (map Num ps) df in
          (case numeric_column df1 ''rating'' 0 of
             Inl e \<Rightarrow> Inl e
           | Inr rs \<Rightarrow>
               let df2 = set_column ''rating'' (map Num rs) df1 in
               (case numeric_column df2 ''delivery_in_days'' 3 of
                  Inl e \<Rightarrow> Inl e
                | Inr ds \<Rightarrow>
                    let df3 = set_column ''delivery_in_days'' (map Num ds) df2 in
                    (case fallback_scores ps rs ds of
                       Inl e \<Rightarrow> Inl e
                     | Inr s \<Rightarrow> Inr (s, set_column ''_pred_score'' (map Num s) df3)))))"

section \<open>The learned-model strategy\<close>

text \<open>
  The pipeline is loaded from the artifact: its feature-name list, its preprocessing
  transform and its regressor are values of the deployment, taken here as they come.
  A library call may raise.
\<close>

type_synonym matrix = "rat option list list"

record preprocessor =
  feature_names_in :: "string list"
  transform :: "dataframe \<Rightarrow> failure + matrix"

record regressor =
  predict :: "matrix \<Rightarrow> failure + rat list"

record env =
  preproc :: "preprocessor option"
  model :: "regressor option"

text \<open>The loop of lines 82 to 84: a column the frame lacks is added, all cells missing.\<close>

fun add_missing :: "string list \<Rightarrow> dataframe \<Rightarrow> dataframe" where
  "add_missing [] df = df"
| "add_missing (c # cs) df =
     add_missing cs
       (if c \<in> set (map fst (columns df)) then df
        else set_column c (replicate (length (index df)) Null) df)"

text \<open>\<^verbatim>\<open>df[names]\<close>: the named columns in the order of the names; KeyError on an absent one.\<close>

fun select_columns :: "string list \<Rightarrow> (string \<times> cell list) list
    \<Rightarrow> failure + (string \<times> cell list) list" where
  "select_columns [] cols = Inr []"
| "select_columns (c # cs) cols =
     (case map_of cols c of
        None \<Rightarrow> Inl KeyError
      | Some vs \<Rightarrow>
          (case select_columns cs cols of Inl e \<Rightarrow> Inl e | Inr sel \<Rightarrow> Inr ((c, vs) # sel)))"

text \<open>
  Lines 81 to 91. Assigning an array of predictions to a column raises ValueError when
  its length is not the number of rows.
\<close>

definition score_learned :: "preprocessor \<Rightarrow> regressor \<Rightarrow> dataframe
    \<Rightarrow> failure + (rat list \<times> dataframe)" where
  "score_learned pre reg df =
     (let feature_names = feature_names_in pre;
          df1 = add_missing feature_names df
      in case select_columns feature_names (columns df1) of
           Inl e \<Rightarrow> Inl e
         | Inr sel \<Rightarrow>
             (case transform pre \<lparr>index = index df1, columns = sel\<rparr> of
                Inl e \<Rightarrow> Inl e
              | Inr X_proc \<Rightarrow>
                  (case predict reg X_proc of
                     Inl e \<Rightarrow> Inl e
                   | Inr preds \<Rightarrow>
                       if length preds \<noteq> length (index df1) then Inl ValueError
                       else Inr (preds, set_column ''_pred_score'' (map Num preds) df1))))"

text \<open>Lines 65 to 91: the strategy is chosen by what was loaded at startup.\<close>

definition score_frame :: "env \<Rightarrow> dataframe \<Rightarrow> failure + (rat list \<times> dataframe)" where
  "score_frame e df =
     (case preproc e of
        None \<Rightarrow> score_fallback df
      | Some pre \<Rightarrow>
          (case model e of
             None \<Rightarrow> score_fallback df
           | Some reg \<Rightarrow> score_learned pre reg df))"

text \<open>The score column alone: what lines 65 to 91 compute for each row.\<close>

definition pred_scores :: "env \<Rightarrow> dataframe \<Rightarrow> failure + rat list" where
  "pred_scores e df = (case score_frame e df of Inl x \<Rightarrow> Inl x | Inr (s, df') \<Rightarrow> Inr s)"

section \<open>Ranking\<close>

text \<open>The rows at the given positions, in that order, with their labels.\<close>

definition take_rows :: "nat list \<Rightarrow> dataframe \<Rightarrow> dataframe" where
  "take_rows ps df =
     \<lparr>index = map (\<lambda>i. index df ! i) ps,
      columns = map (\<lambda>cv. (fst cv, map (\<lambda>i. snd cv ! i) ps)) (columns df)\<rparr>"

text \<open>
  \<^verbatim>\<open>df.head(k)\<close>: the first \<open>k\<close> rows, and for a negative \<open>k\<close> all rows but the last
  \<open>-k\<close>.
\<close>

definition head :: "int \<Rightarrow> dataframe \<Rightarrow> dataframe" where
  "head k df =
     (let n = length (index df);
          m = (if 0 \<le> k then nat k else n - nat (- k))
      in \<lparr>index = take m (index df),
          columns = map (\<lambda>cv. (fst cv, take m (snd cv))) (columns df)\<rparr>)"

text \<open>
  \<^verbatim>\<open>sort_values("_pred_score", ascending=False)\<close> is called with the default
  \<^verbatim>\<open>kind="quicksort"\<close>, which the library documents as not stable: the call fixes the
  order of rows with different scores and leaves the order of rows with equal scores to
  the library. The model is therefore the contract: \<open>ps\<close> is an admissible row order for
  the scores \<open>s\<close> when it is a rearrangement of the positions with non-increasing scores.
\<close>

definition sort_values_desc :: "rat list \<Rightarrow> nat list \<Rightarrow> bool" where
  "sort_values_desc s ps \<longleftrightarrow>
     mset ps = mset [0..<length s] \<and> sorted_wrt (\<lambda>i j. s ! j \<le> s ! i) ps"

text \<open>
  \<^verbatim>\<open>infer_topk(df, k)\<close>: a raised exception, or the top rows together with the caller's
  frame as the call leaves it (the assignments of the scoring mutate it in place; the
  sort returns a new frame).
\<close>

inductive infer_topk :: "env \<Rightarrow> dataframe \<Rightarrow> int \<Rightarrow> failure + (dataframe \<times> dataframe) \<Rightarrow> bool" where
  raised: "score_frame e df = Inl x \<Longrightarrow> infer_topk e df k (Inl x)"
| ranked: "score_frame e df = Inr (s, df') \<Longrightarrow> sort_values_desc s ps \<Longrightarrow>
           infer_topk e df k (Inr (head k (take_rows ps df'), df'))"

section \<open>The request handler\<close>

text \<open>
  One row per offer (lines 141 to 169). \<open>fmt\<close> is Python's rendering of a value inside
  an f-string.
\<close>

definition offer_row :: "(cell \<Rightarrow> string) \<Rightarrow> product \<Rightarrow> pydict \<Rightarrow> pydict \<Rightarrow> pydict" where
  "offer_row fmt p specs offer =
     [(''brand'', brand p),
      (''price'', dict_get offer ''price'' Null),
      (''rating'', dict_get offer ''rating'' Null),
      (''rating_count'', dict_get offer ''rating_count'' Null),
      (''delivery_in_days'', dict_get offer ''delivery_in_days'' Null),
      (''is_trusted_seller'', dict_get offer ''is_trusted_seller'' Null),
      (''RAM_GB'', dict_get specs ''RAM_GB'' Null),
      (''warranty_months'', dict_get specs ''warranty_months'' Null),
      (''is_replaceable'', dict_get specs ''is_replaceable'' Null),
      (''Color'', dict_get specs ''Color'' Null),
      (''product_name'', Str (product_name p)),
      (''seller_name'', dict_get offer ''seller_name'' Null),
      (''specifications'', Dict
         [(''RAM'', Str (fmt (dict_get specs ''RAM_GB'' (Str ''N/A'')) @ '' GB'')),
          (''Storage'', Str (fmt (dict_get specs ''Storage_GB'' (Str ''N/A'')) @ '' GB'')),
          (''Color'', dict_get specs ''Color'' (Str ''N/A'')),
          (''Warranty'', Str (fmt (dict_get specs ''warranty_months'' (Str ''N/A'')) @ '' Months'')),
          (''Replaceable'',
             Str (if truthy (dict_get specs ''is_replaceable'' Null) then ''Yes'' else ''No''))])]"

definition flatten :: "(cell \<Rightarrow> string) \<Rightarrow> product \<Rightarrow> pydict list" where
  "flatten fmt p =
     concat (map (\<lambda>v. map (offer_row fmt p (specifications v)) (offers v)) (variants p))"

text \<open>
  \<^verbatim>\<open>chat\<close> up to line 178, for the stripped message \<open>user_input\<close>. The fuzzy name lookup
  \<open>find_product_by_name\<close> is a collaborator. The outcome comes with the log of the frames handed to
  \<^verbatim>\<open>infer_topk\<close>, so that a branch that never ranks shows an empty log.
\<close>

datatype response =
    Prompt
  | NotFound string
  | NoOffers string
  | TopK dataframe
  | Failed failure

inductive chat :: "(cell \<Rightarrow> string) \<Rightarrow> (string \<Rightarrow> product option) \<Rightarrow> env \<Rightarrow> string
    \<Rightarrow> response \<times> dataframe list \<Rightarrow> bool" where
  prompt: "user_input = [] \<Longrightarrow> chat fmt find_product_by_name e user_input (Prompt, [])"
| not_found: "user_input \<noteq> [] \<Longrightarrow> find_product_by_name user_input = None \<Longrightarrow>
     chat fmt find_product_by_name e user_input (NotFound user_input, [])"
| no_offers: "user_input \<noteq> [] \<Longrightarrow> find_product_by_name user_input = Some p \<Longrightarrow> flatten fmt p = [] \<Longrightarrow>
     chat fmt find_product_by_name e user_input (NoOffers (product_name p), [])"
| failed: "user_input \<noteq> [] \<Longrightarrow> find_product_by_name user_input = Some p \<Longrightarrow> flatten fmt p \<noteq> [] \<Longrightarrow>
     infer_topk e (DataFrame (flatten fmt p)) 3 (Inl x) \<Longrightarrow>
     chat fmt find_product_by_name e user_input (Failed x, [DataFrame (flatten fmt p)])"
| top_k: "user_input \<noteq> [] \<Longrightarrow> find_product_by_name user_input = Some p \<Longrightarrow> flatten fmt p \<noteq> [] \<Longrightarrow>
     infer_topk e (DataFrame (flatten fmt p)) 3 (Inr (topk, df')) \<Longrightarrow>
     chat fmt find_product_by_name e user_input (TopK topk, [DataFrame (flatten fmt p)])"

section \<open>Reference arrangements and sample data\<close>

text \<open>
  The arrangement a stable descending sort produces: rows by non-increasing score, rows
  with equal scores in input order.
\<close>

definition stable_order :: "rat list \<Rightarrow> nat list" where
  "stable_order s = sort_key (\<lambda>i. - (s ! i)) [0..<length s]"

text \<open>The deployment without a loaded artifact, and a small batch of rows.\<close>

definition fallback_env :: env where
  "fallback_env = \<lparr>preproc = None, model = None\<rparr>"

definition example_rows :: "pydict list" where
  "example_rows =
     [[(''price'', Num 1000), (''rating'', Num (9 / 2)), (''delivery_in_days'', Num 2)],
      [(''price'', Num 500), (''rating'', Num 3), (''delivery_in_days'', Num 5)],
      [(''price'', Null), (''rating'', Null), (''delivery_in_days'', Null)]]"

definition example_scores :: "rat list" where
  "example_scores =
     [75000019141666699 / 166666700166666700,
      15833339024166674 / 41666675041666675,
      8660002340666669 / 16666670016666670]"

definition example_scored :: dataframe where
  "example_scored =
     \<lparr>index = [0, 1, 2],
      columns =
        [(''price'', [Num 1000, Num 500, Num 1]),
         (''rating'', [Num (9 / 2), Num 3, Num 0]),
         (''delivery_in_days'', [Num 2, Num 5, Num 3]),
         (''_pred_score'', map Num example_scores)]\<rparr>"

text \<open>Two offers for the batch-relativity of the fallback score.\<close>

definition offer_A :: pydict where
  "offer_A = [(''price'', Num 100), (''rating'', Num 4), (''delivery_in_days'', Num 2)]"

definition offer_B :: pydict where
  "offer_B = [(''price'', Num 200), (''rating'', Num 4), (''delivery_in_days'', Num 4)]"

text \<open>
  The feature list of \<^verbatim>\<open>train_and_rank.py\<close> (lines 78 to 85), which the fitted transform
  reports as its feature names, and a small stand-in for a loaded pipeline: its transform
  keeps the numbers of each row, its regressor adds them up.
\<close>

definition features :: "string list" where
  "features =
     [''price'', ''rating'', ''rating_count'', ''delivery_in_days'', ''RAM_GB'',
      ''warranty_months'', ''brand'', ''Color'', ''is_trusted_seller'', ''is_replaceable'']"

definition sample_preproc :: preprocessor where
  "sample_preproc =
     \<lparr>feature_names_in = features,
      transform = (\<lambda>df. Inr (map (\<lambda>i. map (\<lambda>cv. case snd cv ! i of Num r \<Rightarrow> Some r | _ \<Rightarrow> None)
                                          (columns df))
                               [0..<length (index df)]))\<rparr>"

definition sample_model :: regressor where
  "sample_model =
     \<lparr>predict = (\<lambda>X. Inr (map (\<lambda>row. sum_list (map (\<lambda>x. case x of None \<Rightarrow> 0 | Some r \<Rightarrow> r) row)) X))\<rparr>"

definition learned_env :: env where
  "learned_env = \<lparr>preproc = Some sample_preproc, model = Some sample_model\<rparr>"

text \<open>A catalog entry with two offers of one variant, and one whose variants have no offers.\<close>

definition sample_product :: product where
  "sample_product =
     \<lparr>product_name = ''Phone X'', brand = Str ''Acme'',
      variants =
        [\<lparr>specifications = [(''RAM_GB'', Num 8), (''Color'', Str ''Black'')],
          offers =
            [[(''seller_name'', Str ''A''), (''price'', Num 1000), (''rating'', Num (9 / 2)),
              (''delivery_in_days'', Num 2)],
             [(''seller_name'', Str ''B''), (''rating'', Num 3)]]\<rparr>]\<rparr>"

definition empty_product :: product where
  "empty_product =
     \<lparr>product_name = ''Phone Y'', brand = Null,
      variants =
        [\<lparr>specifications = [], offers = []\<rparr>,
         \<lparr>specifications = [(''RAM_GB'', Num 4)], offers = []\<rparr>]\<rparr>"

definition sample_fmt :: "cell \<Rightarrow> string" where
  "sample_fmt c = (case c of Str s \<Rightarrow> s | _ \<Rightarrow> ''?'')"

text \<open>
  The frame the preprocessing transform is to receive: the named columns in the order of
  the names, a column the frame lacks standing as a column of missing cells.
\<close>

definition schema_frame :: "string list \<Rightarrow> dataframe \<Rightarrow> dataframe" where
  "schema_frame names df =
     \<lparr>index = index df,
      columns = map (\<lambda>c. (c, case map_of (columns df) c of
                               Some vs \<Rightarrow> vs
                             | None \<Rightarrow> replicate (length (index df)) Null)) names\<rparr>"

text \<open>
  A second batch that agrees with the sample rows on the three defaulted columns and
  differs in the other fields; the matrix and scores of the stand-in pipeline on the
  sample rows; a name lookup over the two sample entries.
\<close>

definition other_rows :: "pydict list" where
  "other_rows =
     [[(''brand'', Str ''Acme''), (''price'', Num 1000), (''rating'', Num (9 / 2)),
       (''delivery_in_days'', Num 2), (''is_trusted_seller'', Num 1)],
      [(''brand'', Str ''Zed''), (''price'', Num 500), (''rating'', Num 3),
       (''delivery_in_days'', Num 5), (''is_trusted_seller'', Num 0)],
      [(''brand'', Null), (''price'', Num 1), (''rating'', Num 0),
       (''delivery_in_days'', Num 3), (''rating_count'', Num 12)]]"

definition example_matrix :: matrix where
  "example_matrix =
     [[Some 1000, Some (9 / 2), None, Some 2, None, None, None, None, None, None],
      [Some 500, Some 3, None, Some 5, None, None, None, None, None, None],
      [None, None, None, None, None, None, None, None, None, None]]"

definition learned_scores :: "rat list" where
  "learned_scores = [2013 / 2, 508, 0]"

definition sample_find :: "string \<Rightarrow> product option" where
  "sample_find q =
     (if q = ''phone x'' then Some sample_product
      else if q = ''phone y'' then Some empty_product
      else None)"

section \<open>Basic facts about frames and columns\<close>

lemma series_max_Max: "xs \<noteq> [] \<Longrightarrow> series_max xs = Some (Max (set xs))"
proof (cases xs)
  case (Cons a list)
  then show ?thesis using Max.set_eq_fold[of a list] by simp
qed simp


lemma to_numeric_length: "to_numeric vs = Inr xs \<Longrightarrow> length xs = length vs"
  by (induction vs arbitrary: xs) (auto split: sum.splits)

lemma map_of_set_column:
  "map_of (columns (set_column c vs df)) c' = (if c' = c then Some vs else map_of (columns df) c')"
  by (simp add: set_column_def update_conv')

lemma index_set_column [simp]: "index (set_column c vs df) = index df"
  by (simp add: set_column_def)

lemma numeric_column_set_other:
  "c' \<noteq> c \<Longrightarrow> numeric_column (set_column c vs df) c' d = numeric_column df c' d"
  by (simp add: numeric_column_def map_of_set_column)

lemma wf_column_length:
  "wf_frame df \<Longrightarrow> map_of (columns df) c = Some vs \<Longrightarrow> length vs = length (index df)"
  by (auto simp: wf_frame_def list_all_iff dest!: map_of_SomeD)

lemma numeric_column_length:
  "wf_frame df \<Longrightarrow> numeric_column df c d = Inr xs \<Longrightarrow> length xs = length (index df)"
proof -
  assume wf: "wf_frame df" and nc: "numeric_column df c d = Inr xs"
  from nc obtain vs ys where vs: "map_of (columns df) c = Some vs"
    and ys: "to_numeric vs = Inr ys" and xs: "xs = fillna d ys"
    by (auto simp: numeric_column_def split: option.splits sum.splits)
  from wf vs have "length vs = length (index df)" by (rule wf_column_length)
  with to_numeric_length[OF ys] xs show ?thesis by (simp add: fillna_def)
qed

lemma score_frame_fallback:
  "preproc e = None \<or> model e = None \<Longrightarrow> score_frame e df = score_fallback df"
  by (auto simp: score_frame_def split: option.splits)

lemma score_fallback_unfold:
  assumes "numeric_column df ''price'' 1 = Inr P"
    and "numeric_column df ''rating'' 0 = Inr R"
    and "numeric_column df ''delivery_in_days'' 3 = Inr D"
  shows "score_fallback df =
    (case fallback_scores P R D of Inl x \<Rightarrow> Inl x
     | Inr s \<Rightarrow> Inr (s, set_column ''_pred_score'' (map Num s)
         (set_column ''delivery_in_days'' (map Num D)
           (set_column ''rating'' (map Num R) (set_column ''price'' (map Num P) df)))))"
  using assms by (simp add: score_fallback_def Let_def numeric_column_set_other)

lemma score_fallback_columns:
  assumes "score_fallback df = Inr (s, df')"
  obtains P R D where "numeric_column df ''price'' 1 = Inr P"
    and "numeric_column df ''rating'' 0 = Inr R"
    and "numeric_column df ''delivery_in_days'' 3 = Inr D"
    and "fallback_scores P R D = Inr s"
    and "df' = set_column ''_pred_score'' (map Num s)
         (set_column ''delivery_in_days'' (map Num D)
           (set_column ''rating'' (map Num R) (set_column ''price'' (map Num P) df)))"
proof -
  from assms obtain P where P: "numeric_column df ''price'' 1 = Inr P"
    by (auto simp: score_fallback_def split: sum.splits)
  from assms P obtain R where R: "numeric_column df ''rating'' 0 = Inr R"
    by (auto simp: score_fallback_def Let_def numeric_column_set_other split: sum.splits)
  from assms P R obtain D where D: "numeric_column df ''delivery_in_days'' 3 = Inr D"
    by (auto simp: score_fallback_def Let_def numeric_column_set_other split: sum.splits)
  from assms have "fallback_scores P R D = Inr s"
    and "df' = set_column ''_pred_score'' (map Num s)
         (set_column ''delivery_in_days'' (map Num D)
           (set_column ''rating'' (map Num R) (set_column ''price'' (map Num P) df)))"
    by (auto simp: score_fallback_unfold[OF P R D] split: sum.splits)
  with P R D show thesis by (rule that)
qed

lemma fallback_scores_nonempty:
  assumes "P \<noteq> []" "D \<noteq> []"
    and "Max (set P) + eps \<noteq> 0" "Max (set D) + eps \<noteq> 0"
  shows "fallback_scores P R D =
    Inr (map (\<lambda>(p, r, d). fallback_formula (Max (set P)) (Max (set D)) p r d) (zip P (zip R D)))"
  using assms by (simp add: fallback_scores_def series_max_Max)


section \<open>Basic facts about scoring and ranking\<close>

lemma sort_values_desc_stable: "sort_values_desc s (stable_order s)"
proof -
  have "sorted (map (\<lambda>i. - (s ! i)) (stable_order s))"
    by (simp add: stable_order_def)
  then have "sorted_wrt (\<lambda>i j. s ! j \<le> s ! i) (stable_order s)"
    by (simp add: sorted_map)
  then show ?thesis by (simp add: sort_values_desc_def stable_order_def)
qed


lemma index_add_missing [simp]: "index (add_missing cs df) = index df"
  by (induction cs arbitrary: df) simp_all


lemma score_learned_shape:
  assumes sc: "score_learned pre reg df = Inr (s, df')"
  shows "length s = length (index df) \<and> index df' = index df \<and>
         map_of (columns df') ''_pred_score'' = Some (map Num s)"
  using sc
  by (auto simp: score_learned_def Let_def map_of_set_column split: sum.splits if_splits)






lemma index_take_rows [simp]: "index (take_rows ps df) = map (\<lambda>i. index df ! i) ps"
  by (simp add: take_rows_def)

section \<open>The sample batches, evaluated\<close>


lemma example_score_frame:
  "score_frame fallback_env (DataFrame example_rows) = Inr (example_scores, example_scored)"
  by (simp add: score_frame_def fallback_env_def score_fallback_def numeric_column_def
      DataFrame_def example_rows_def dict_get_def fillna_def set_column_def Let_def
      fallback_scores_def fallback_formula_def eps_def example_scores_def example_scored_def)


section \<open>Facts about the two strategies and the request handler\<close>

lemma pred_scores_fallback:
  assumes fb: "preproc e = None \<or> model e = None"
  shows "pred_scores e df =
    (case numeric_column df ''price'' 1 of Inl x \<Rightarrow> Inl x | Inr P \<Rightarrow>
     (case numeric_column df ''rating'' 0 of Inl x \<Rightarrow> Inl x | Inr R \<Rightarrow>
      (case numeric_column df ''delivery_in_days'' 3 of Inl x \<Rightarrow> Inl x | Inr D \<Rightarrow>
         fallback_scores P R D)))"
  by (simp add: pred_scores_def score_frame_fallback[OF fb] score_fallback_def Let_def
      numeric_column_set_other split: sum.splits)

lemma coerce_fill_missing:
  "i < length vs \<Longrightarrow> vs ! i = Null \<Longrightarrow>
   (case to_numeric (vs[i := Num d]) of Inl x \<Rightarrow> Inl x | Inr xs \<Rightarrow> Inr (fillna d xs)) =
   (case to_numeric vs of Inl x \<Rightarrow> Inl x | Inr xs \<Rightarrow> Inr (fillna d xs))"
proof (induction vs arbitrary: i)
  case Nil
  then show ?case by simp
next
  case (Cons v vs)
  show ?case
  proof (cases i)
    case 0
    with Cons.prems show ?thesis by (simp add: fillna_def split: sum.splits)
  next
    case (Suc j)
    with Cons.prems have "j < length vs" "vs ! j = Null" by simp_all
    from Cons.IH[OF this] Suc show ?thesis
      by (auto simp: fillna_def split: sum.splits)
  qed
qed

lemma numeric_column_fill_missing:
  assumes "map_of (columns df) c = Some vs" "i < length vs" "vs ! i = Null"
  shows "numeric_column (set_column c (vs[i := Num d]) df) c d = numeric_column df c d"
  using assms by (simp add: numeric_column_def map_of_set_column coerce_fill_missing)

lemma pred_scores_fallback_cong:
  assumes "preproc e = None \<or> model e = None"
    and "numeric_column df1 ''price'' 1 = numeric_column df2 ''price'' 1"
    and "numeric_column df1 ''rating'' 0 = numeric_column df2 ''rating'' 0"
    and "numeric_column df1 ''delivery_in_days'' 3 = numeric_column df2 ''delivery_in_days'' 3"
  shows "pred_scores e df1 = pred_scores e df2"
  using assms(2-) by (simp only: pred_scores_fallback[OF assms(1)])

lemma in_columns_iff: "c \<in> set (map fst (columns df)) \<longleftrightarrow> map_of (columns df) c \<noteq> None"
  by (simp add: map_of_eq_None_iff)

lemma map_of_add_missing:
  "map_of (columns (add_missing cs df)) c =
     (case map_of (columns df) c of
        Some vs \<Rightarrow> Some vs
      | None \<Rightarrow> if c \<in> set cs then Some (replicate (length (index df)) Null) else None)"
proof (induction cs arbitrary: df)
  case Nil
  then show ?case by (simp split: option.splits)
next
  case (Cons a cs)
  show ?case
  proof (cases "a \<in> set (map fst (columns df))")
    case True
    then have "map_of (columns df) a \<noteq> None" using in_columns_iff by blast
    with True Cons.IH[of df] show ?thesis by (auto split: option.splits)
  next
    case False
    then have "map_of (columns df) a = None" using in_columns_iff by blast
    with False Cons.IH[of "set_column a (replicate (length (index df)) Null) df"]
    show ?thesis by (auto simp: map_of_set_column split: option.splits)
  qed
qed

lemma select_columns_present:
  "(\<And>c. c \<in> set cs \<Longrightarrow> map_of cols c \<noteq> None) \<Longrightarrow>
   select_columns cs cols = Inr (map (\<lambda>c. (c, the (map_of cols c))) cs)"
  by (induction cs) (auto split: option.splits)

lemma select_add_missing:
  "select_columns cs (columns (add_missing cs df)) = Inr (columns (schema_frame cs df))"
proof -
  have "select_columns cs (columns (add_missing cs df)) =
      Inr (map (\<lambda>c. (c, the (map_of (columns (add_missing cs df)) c))) cs)"
    by (rule select_columns_present) (simp add: map_of_add_missing split: option.splits)
  also have "map (\<lambda>c. (c, the (map_of (columns (add_missing cs df)) c))) cs =
      columns (schema_frame cs df)"
    by (simp add: schema_frame_def map_of_add_missing split: option.splits)
  finally show ?thesis .
qed

lemma score_learned_unfold:
  "score_learned pre reg df =
     (case transform pre (schema_frame (feature_names_in pre) df) of
        Inl x \<Rightarrow> Inl x
      | Inr X \<Rightarrow>
          (case predict reg X of
             Inl x \<Rightarrow> Inl x
           | Inr preds \<Rightarrow>
               if length preds \<noteq> length (index df) then Inl ValueError
               else Inr (preds, set_column ''_pred_score'' (map Num preds)
                                  (add_missing (feature_names_in pre) df))))"
proof -
  have "\<lparr>index = index df, columns = columns (schema_frame (feature_names_in pre) df)\<rparr>
      = schema_frame (feature_names_in pre) df"
    by (simp add: schema_frame_def)
  then show ?thesis
    by (simp add: score_learned_def Let_def select_add_missing cong: sum.case_cong)
qed

lemma add_missing_present:
  "(\<And>c. c \<in> set cs \<Longrightarrow> map_of (columns df) c \<noteq> None) \<Longrightarrow> add_missing cs df = df"
proof (induction cs arbitrary: df)
  case Nil
  then show ?case by simp
next
  case (Cons a cs)
  from Cons.prems[of a] have "a \<in> set (map fst (columns df))"
    using in_columns_iff[of a df] by auto
  moreover from Cons.prems have "add_missing cs df = df" by (intro Cons.IH) simp
  ultimately show ?case by simp
qed

lemma to_numeric_Num: "to_numeric (map Num xs) = Inr (map Some xs)"
  by (induction xs) simp_all

lemma numeric_column_Num:
  "map_of (columns df) c = Some (map Num xs) \<Longrightarrow> numeric_column df c d = Inr xs"
  by (simp add: numeric_column_def to_numeric_Num fillna_def comp_def)

lemma set_column_same: "map_of (columns df) c = Some vs \<Longrightarrow> set_column c vs df = df"
  by (simp add: set_column_def update_triv)

lemma score_fallback_again:
  assumes sc: "score_fallback df = Inr (s, df')"
  shows "score_fallback df' = Inr (s, df')"
proof -
  from sc obtain P R D where fs: "fallback_scores P R D = Inr s"
    and df': "df' = set_column ''_pred_score'' (map Num s)
         (set_column ''delivery_in_days'' (map Num D)
           (set_column ''rating'' (map Num R) (set_column ''price'' (map Num P) df)))"
    by (rule score_fallback_columns)
  have cols: "map_of (columns df') ''price'' = Some (map Num P)"
    "map_of (columns df') ''rating'' = Some (map Num R)"
    "map_of (columns df') ''delivery_in_days'' = Some (map Num D)"
    "map_of (columns df') ''_pred_score'' = Some (map Num s)"
    by (simp_all add: df' map_of_set_column)
  have nc: "numeric_column df' ''price'' 1 = Inr P" "numeric_column df' ''rating'' 0 = Inr R"
    "numeric_column df' ''delivery_in_days'' 3 = Inr D"
    using cols by (simp_all add: numeric_column_Num)
  show ?thesis
    by (simp add: score_fallback_unfold[OF nc] fs set_column_same cols)
qed

lemma schema_frame_scored:
  assumes "''_pred_score'' \<notin> set cs"
  shows "schema_frame cs (set_column ''_pred_score'' vs (add_missing cs df)) = schema_frame cs df"
proof -
  have "(case map_of (columns (set_column ''_pred_score'' vs (add_missing cs df))) c of
          Some ws \<Rightarrow> ws | None \<Rightarrow> replicate (length (index df)) Null) =
        (case map_of (columns df) c of
          Some ws \<Rightarrow> ws | None \<Rightarrow> replicate (length (index df)) Null)"
    if "c \<in> set cs" for c
  proof -
    from that assms have "c \<noteq> ''_pred_score''" by auto
    with that show ?thesis
      by (simp add: map_of_set_column map_of_add_missing split: option.splits)
  qed
  then show ?thesis by (simp add: schema_frame_def cong: option.case_cong)
qed

lemma score_learned_again:
  assumes sc: "score_learned pre reg df = Inr (s, df')"
    and nf: "''_pred_score'' \<notin> set (feature_names_in pre)"
  shows "score_learned pre reg df' = Inr (s, df')"
proof -
  let ?cs = "feature_names_in pre"
  from sc obtain X where X: "transform pre (schema_frame ?cs df) = Inr X"
    and p: "predict reg X = Inr s" and len: "length s = length (index df)"
    and df': "df' = set_column ''_pred_score'' (map Num s) (add_missing ?cs df)"
    by (auto simp: score_learned_unfold split: sum.splits if_splits)
  have sch: "schema_frame ?cs df' = schema_frame ?cs df"
    unfolding df' using nf by (rule schema_frame_scored)
  have "map_of (columns df') c \<noteq> None" if "c \<in> set ?cs" for c
    using that by (simp add: df' map_of_set_column map_of_add_missing split: option.splits)
  then have am: "add_missing ?cs df' = df'" by (rule add_missing_present)
  have idx: "index df' = index df" by (simp add: df')
  have same: "set_column ''_pred_score'' (map Num s) df' = df'"
    by (rule set_column_same) (simp add: df' map_of_set_column)
  show ?thesis
    by (simp add: score_learned_unfold[of pre reg df'] sch X p len am idx same)
qed

lemma score_frame_pred_column:
  assumes sc: "score_frame e df = Inr (s, df')"
  shows "map_of (columns df') ''_pred_score'' = Some (map Num s)"
proof (cases "preproc e = None \<or> model e = None")
  case True
  with sc have "score_fallback df = Inr (s, df')" by (simp add: score_frame_fallback)
  then show ?thesis by (rule score_fallback_columns) (simp add: map_of_set_column)
next
  case False
  then obtain pre reg where "preproc e = Some pre" "model e = Some reg" by auto
  with sc have "score_learned pre reg df = Inr (s, df')" by (simp add: score_frame_def)
  then show ?thesis by (simp add: score_learned_shape)
qed

lemma offer_row_keys:
  "map fst (offer_row fmt p specs offer) =
     [''brand'', ''price'', ''rating'', ''rating_count'', ''delivery_in_days'',
      ''is_trusted_seller'', ''RAM_GB'', ''warranty_months'', ''is_replaceable'', ''Color'',
      ''product_name'', ''seller_name'', ''specifications'']"
  by (simp add: offer_row_def)

lemma flatten_keys:
  "r \<in> set (flatten fmt p) \<Longrightarrow> ''_pred_score'' \<notin> set (map fst r)"
proof -
  assume "r \<in> set (flatten fmt p)"
  then obtain specs offer where "r = offer_row fmt p specs offer"
    by (auto simp: flatten_def)
  then show ?thesis by (simp only: offer_row_keys) simp
qed

lemma chat_frame_fresh:
  "map_of (columns (DataFrame (flatten fmt p))) ''_pred_score'' = None"
proof -
  have "''_pred_score'' \<notin> set (concat (map (map fst) (flatten fmt p)))"
    using flatten_keys[of _ fmt p] by auto
  then show ?thesis
    by (simp add: DataFrame_def map_of_eq_None_iff image_image)
qed

lemma flatten_empty:
  "list_all (\<lambda>v. offers v = []) (variants p) \<Longrightarrow> flatten fmt p = []"
  by (simp add: flatten_def list_all_iff)

lemmas eval_defs = numeric_column_def DataFrame_def example_rows_def dict_get_def fillna_def

lemma fallback_env_fallback: "preproc fallback_env = None \<or> model fallback_env = None"
  by (simp add: fallback_env_def)

lemma example_pred_scores: "pred_scores fallback_env (DataFrame example_rows) = Inr example_scores"
  by (simp add: pred_scores_def example_score_frame)

lemma learned_env_parts:
  "preproc learned_env = Some sample_preproc" "model learned_env = Some sample_model"
  by (simp_all add: learned_env_def)

lemma sample_names: "feature_names_in sample_preproc = features"
  by (simp add: sample_preproc_def)

lemma example_transform:
  "transform sample_preproc (schema_frame (feature_names_in sample_preproc) (DataFrame example_rows))
     = Inr example_matrix"
  by (simp add: sample_preproc_def schema_frame_def features_def DataFrame_def
      example_rows_def dict_get_def example_matrix_def upt_rec)

lemma example_predict: "predict sample_model example_matrix = Inr learned_scores"
  by (simp add: sample_model_def example_matrix_def learned_scores_def)

lemma example_rows_count: "length learned_scores = length (index (DataFrame example_rows))"
  by (simp add: learned_scores_def DataFrame_def example_rows_def)

lemma example_learned_scored:
  "\<exists>df'. score_frame learned_env (DataFrame example_rows) = Inr (learned_scores, df')"
  by (simp add: score_frame_def learned_env_parts score_learned_unfold example_transform
      example_predict example_rows_count)

lemma chat_frame_columns:
  "numeric_column (DataFrame (flatten sample_fmt sample_product)) ''price'' 1 = Inr [1000, 1]"
  "numeric_column (DataFrame (flatten sample_fmt sample_product)) ''rating'' 0 = Inr [9 / 2, 3]"
  "numeric_column (DataFrame (flatten sample_fmt sample_product)) ''delivery_in_days'' 3 = Inr [2, 3]"
  by (simp_all add: numeric_column_def DataFrame_def flatten_def sample_product_def offer_row_def
      dict_get_def fillna_def)

lemma chat_frame_scored:
  "\<exists>s df'. score_frame fallback_env (DataFrame (flatten sample_fmt sample_product)) = Inr (s, df')"
  by (simp add: score_frame_fallback[OF fallback_env_fallback]
      score_fallback_unfold[OF chat_frame_columns] fallback_scores_def eps_def)

section \<open>The shape of a ranking\<close>


section \<open>The fallback score\<close>

text \<open>
  Claim C1. For a non-empty batch scored by the fallback heuristic (no artifact loaded),
  the scoring returns one score per row, and the score of row \<open>i\<close> is
  \<open>0.4 * (1 - price / (max price + 1e-6)) + 0.3 * (rating / 5)
  + 0.3 * (1 - delivery_in_days / (max delivery_in_days + 1e-6))\<close>, where the three
  columns are the defaulted ones and the maxima are taken over the batch. The batch is
  one whose three columns coerce to numbers and whose denominators are not zero.
\<close>

theorem fallback_score_formula:
  assumes fb: "preproc e = None \<or> model e = None"
    and P: "numeric_column df ''price'' 1 = Inr P"
    and R: "numeric_column df ''rating'' 0 = Inr R"
    and D: "numeric_column df ''delivery_in_days'' 3 = Inr D"
    and wf: "wf_frame df" and ne: "index df \<noteq> []"
    and fin: "Max (set P) + 1 / 1000000 \<noteq> 0" "Max (set D) + 1 / 1000000 \<noteq> 0"
  shows "\<exists>s df'. score_frame e df = Inr (s, df') \<and> length s = length (index df) \<and>
     (\<forall>i < length (index df).
        s ! i = 4 / 10 * (1 - P ! i / (Max (set P) + 1 / 1000000))
              + 3 / 10 * (R ! i / 5)
              + 3 / 10 * (1 - D ! i / (Max (set D) + 1 / 1000000)))"
proof -
  let ?n = "length (index df)"
  have lens: "length P = ?n" "length R = ?n" "length D = ?n"
    using wf P R D by (auto dest: numeric_column_length)
  with ne have nonempty: "P \<noteq> []" "D \<noteq> []" by auto
  let ?s = "map (\<lambda>(p, r, d). fallback_formula (Max (set P)) (Max (set D)) p r d) (zip P (zip R D))"
  have fs: "fallback_scores P R D = Inr ?s"
    using nonempty fin by (intro fallback_scores_nonempty) (simp_all add: eps_def)
  have "\<exists>df'. score_frame e df = Inr (?s, df')"
    by (simp add: score_frame_fallback[OF fb] score_fallback_unfold[OF P R D] fs)
  moreover have "length ?s = ?n" using lens by simp
  moreover have "\<forall>i < ?n. ?s ! i = 4 / 10 * (1 - P ! i / (Max (set P) + 1 / 1000000))
              + 3 / 10 * (R ! i / 5)
              + 3 / 10 * (1 - D ! i / (Max (set D) + 1 / 1000000))"
    using lens by (simp add: fallback_formula_def eps_def)
  ultimately show ?thesis by blast
qed

theorem fallback_score_formula_witness:
  "(preproc fallback_env = None \<or> model fallback_env = None) \<and>
   numeric_column (DataFrame example_rows) ''price'' 1 = Inr [1000, 500, 1] \<and>
   numeric_column (DataFrame example_rows) ''rating'' 0 = Inr [9 / 2, 3, 0] \<and>
   numeric_column (DataFrame example_rows) ''delivery_in_days'' 3 = Inr [2, 5, 3] \<and>
   wf_frame (DataFrame example_rows) \<and> index (DataFrame example_rows) \<noteq> [] \<and>
   Max (set [1000, 500, 1 :: rat]) + 1 / 1000000 \<noteq> 0 \<and>
   Max (set [2, 5, 3 :: rat]) + 1 / 1000000 \<noteq> 0 \<and>
   (\<exists>s df'. score_frame fallback_env (DataFrame example_rows) = Inr (s, df') \<and>
      length s = length (index (DataFrame example_rows)) \<and>
      (\<forall>i < length (index (DataFrame example_rows)).
         s ! i = 4 / 10 * (1 - [1000, 500, 1] ! i / (Max (set [1000, 500, 1]) + 1 / 1000000))
               + 3 / 10 * ([9 / 2, 3, 0] ! i / 5)
               + 3 / 10 * (1 - [2, 5, 3] ! i / (Max (set [2, 5, 3]) + 1 / 1000000))))"
proof -
  have fb: "preproc fallback_env = None \<or> model fallback_env = None"
    by (simp add: fallback_env_def)
  have P: "numeric_column (DataFrame example_rows) ''price'' 1 = Inr [1000, 500, 1]"
    by (simp add: numeric_column_def DataFrame_def example_rows_def dict_get_def fillna_def)
  have R: "numeric_column (DataFrame example_rows) ''rating'' 0 = Inr [9 / 2, 3, 0]"
    by (simp add: numeric_column_def DataFrame_def example_rows_def dict_get_def fillna_def)
  have D: "numeric_column (DataFrame example_rows) ''delivery_in_days'' 3 = Inr [2, 5, 3]"
    by (simp add: numeric_column_def DataFrame_def example_rows_def dict_get_def fillna_def)
  have wf: "wf_frame (DataFrame example_rows)"
    by (simp add: wf_frame_def DataFrame_def example_rows_def dict_get_def)
  have ne: "index (DataFrame example_rows) \<noteq> []"
    by (simp add: DataFrame_def example_rows_def)
  have mp: "Max (set [1000, 500, 1 :: rat]) + 1 / 1000000 \<noteq> 0" by simp
  have md: "Max (set [2, 5, 3 :: rat]) + 1 / 1000000 \<noteq> 0" by simp
  show ?thesis
    by (intro conjI fb P R D wf ne mp md fallback_score_formula [OF fb P R D wf ne mp md])
qed

text \<open>
  Claim C4. The fallback score is relative to the batch: there are two offers \<open>A\<close> and
  \<open>B\<close> with different prices such that \<open>A\<close> scored alone and \<open>A\<close> scored
  together with \<open>B\<close> get different fallback scores.
\<close>

theorem fallback_batch_relative:
  "\<exists>A B sA sAB. dict_get A ''price'' Null \<noteq> dict_get B ''price'' Null \<and>
     pred_scores fallback_env (DataFrame [A]) = Inr sA \<and>
     pred_scores fallback_env (DataFrame [A, B]) = Inr sAB \<and>
     sA ! 0 \<noteq> sAB ! 0"
proof -
  have fb: "preproc fallback_env = None \<or> model fallback_env = None"
    by (simp add: fallback_env_def)
  have 1: "dict_get offer_A ''price'' Null \<noteq> dict_get offer_B ''price'' Null"
    by (simp add: dict_get_def offer_A_def offer_B_def)
  have 2: "pred_scores fallback_env (DataFrame [offer_A]) = Inr [800000921333349 / 3333335033333350]"
    by (simp add: pred_scores_fallback[OF fb] numeric_column_def DataFrame_def offer_A_def
        dict_get_def fillna_def fallback_scores_def fallback_formula_def eps_def)
  have 3: "pred_scores fallback_env (DataFrame [offer_A, offer_B]) =
      Inr [23600007558000047 / 40000010200000050, 9600005528000047 / 40000010200000050]"
    by (simp add: pred_scores_fallback[OF fb] numeric_column_def DataFrame_def offer_A_def
        offer_B_def dict_get_def fillna_def fallback_scores_def fallback_formula_def eps_def)
  have 4: "[800000921333349 / 3333335033333350 :: rat] ! 0 \<noteq>
      [23600007558000047 / 40000010200000050, 9600005528000047 / 40000010200000050] ! 0"
    by simp
  from 1 2 3 4 show ?thesis by blast
qed

text \<open>
  Claim C5. Under the fallback heuristic a row whose price cell is missing gets the
  scores of the whole batch exactly as if that cell were 1; likewise a missing rating
  cell counts as 0 and a missing delivery_in_days cell as 3. (The column itself is
  present, as it is in every frame the request handler builds.)
\<close>

theorem missing_fields_defaulted:
  assumes fb: "preproc e = None \<or> model e = None"
    and i: "i < length vs" "vs ! i = Null"
  shows "(map_of (columns df) ''price'' = Some vs \<longrightarrow>
            pred_scores e (set_column ''price'' (vs[i := Num 1]) df) = pred_scores e df) \<and>
         (map_of (columns df) ''rating'' = Some vs \<longrightarrow>
            pred_scores e (set_column ''rating'' (vs[i := Num 0]) df) = pred_scores e df) \<and>
         (map_of (columns df) ''delivery_in_days'' = Some vs \<longrightarrow>
            pred_scores e (set_column ''delivery_in_days'' (vs[i := Num 3]) df) = pred_scores e df)"
  using i
  by (intro conjI impI pred_scores_fallback_cong[OF fb])
     (simp_all add: numeric_column_fill_missing numeric_column_set_other)

theorem missing_fields_defaulted_witness:
  "(preproc fallback_env = None \<or> model fallback_env = None) \<and>
   (2::nat) < length [Num 1000, Num 500, Null] \<and> [Num 1000, Num 500, Null] ! 2 = Null \<and>
   map_of (columns (DataFrame example_rows)) ''price'' = Some [Num 1000, Num 500, Null] \<and>
   pred_scores fallback_env
     (set_column ''price'' ([Num 1000, Num 500, Null][2 := Num 1]) (DataFrame example_rows))
     = pred_scores fallback_env (DataFrame example_rows) \<and>
   (2::nat) < length [Num (9 / 2), Num 3, Null] \<and> [Num (9 / 2), Num 3, Null] ! 2 = Null \<and>
   map_of (columns (DataFrame example_rows)) ''rating'' = Some [Num (9 / 2), Num 3, Null] \<and>
   pred_scores fallback_env
     (set_column ''rating'' ([Num (9 / 2), Num 3, Null][2 := Num 0]) (DataFrame example_rows))
     = pred_scores fallback_env (DataFrame example_rows) \<and>
   (2::nat) < length [Num 2, Num 5, Null] \<and> [Num 2, Num 5, Null] ! 2 = Null \<and>
   map_of (columns (DataFrame example_rows)) ''delivery_in_days'' = Some [Num 2, Num 5, Null] \<and>
   pred_scores fallback_env
     (set_column ''delivery_in_days'' ([Num 2, Num 5, Null][2 := Num 3]) (DataFrame example_rows))
     = pred_scores fallback_env (DataFrame example_rows) \<and>
   pred_scores fallback_env (DataFrame example_rows) = Inr example_scores"
proof -
  note fb = fallback_env_fallback
  have p1: "(2::nat) < length [Num 1000, Num 500, Null]" by simp
  have p2: "[Num 1000, Num 500, Null] ! 2 = Null" by simp
  have p3: "map_of (columns (DataFrame example_rows)) ''price'' = Some [Num 1000, Num 500, Null]"
    by (simp add: eval_defs)
  have r1: "(2::nat) < length [Num (9 / 2), Num 3, Null]" by simp
  have r2: "[Num (9 / 2), Num 3, Null] ! 2 = Null" by simp
  have r3: "map_of (columns (DataFrame example_rows)) ''rating'' = Some [Num (9 / 2), Num 3, Null]"
    by (simp add: eval_defs)
  have d1: "(2::nat) < length [Num 2, Num 5, Null]" by simp
  have d2: "[Num 2, Num 5, Null] ! 2 = Null" by simp
  have d3: "map_of (columns (DataFrame example_rows)) ''delivery_in_days'' = Some [Num 2, Num 5, Null]"
    by (simp add: eval_defs)
  from missing_fields_defaulted [OF fb p1 p2, of "DataFrame example_rows"] p3
  have p: "pred_scores fallback_env
     (set_column ''price'' ([Num 1000, Num 500, Null][2 := Num 1]) (DataFrame example_rows))
     = pred_scores fallback_env (DataFrame example_rows)" by blast
  from missing_fields_defaulted [OF fb r1 r2, of "DataFrame example_rows"] r3
  have r: "pred_scores fallback_env
     (set_column ''rating'' ([Num (9 / 2), Num 3, Null][2 := Num 0]) (DataFrame example_rows))
     = pred_scores fallback_env (DataFrame example_rows)" by blast
  from missing_fields_defaulted [OF fb d1 d2, of "DataFrame example_rows"] d3
  have d: "pred_scores fallback_env
     (set_column ''delivery_in_days'' ([Num 2, Num 5, Null][2 := Num 3]) (DataFrame example_rows))
     = pred_scores fallback_env (DataFrame example_rows)" by blast
  show ?thesis
    by (intro conjI fb p1 p2 p3 p r1 r2 r3 r d1 d2 d3 d example_pred_scores)
qed

text \<open>
  Claim C9. Under the fallback heuristic the scores depend on the defaulted price,
  rating and delivery_in_days columns only: two batches that agree on these three
  columns after defaulting get the same scores (or fail alike), and replacing or adding
  any other column of a batch leaves its scores unchanged.
\<close>

theorem fallback_depends_on_three_columns:
  assumes fb: "preproc e = None \<or> model e = None"
  shows "(numeric_column df1 ''price'' 1 = numeric_column df2 ''price'' 1 \<and>
          numeric_column df1 ''rating'' 0 = numeric_column df2 ''rating'' 0 \<and>
          numeric_column df1 ''delivery_in_days'' 3 = numeric_column df2 ''delivery_in_days'' 3
          \<longrightarrow> pred_scores e df1 = pred_scores e df2) \<and>
         (c \<notin> {''price'', ''rating'', ''delivery_in_days''}
          \<longrightarrow> pred_scores e (set_column c vs df1) = pred_scores e df1)"
  by (intro conjI impI pred_scores_fallback_cong[OF fb])
     (auto simp: numeric_column_set_other)

theorem fallback_depends_on_three_columns_witness:
  "(preproc fallback_env = None \<or> model fallback_env = None) \<and>
   numeric_column (DataFrame example_rows) ''price'' 1
     = numeric_column (DataFrame other_rows) ''price'' 1 \<and>
   numeric_column (DataFrame example_rows) ''rating'' 0
     = numeric_column (DataFrame other_rows) ''rating'' 0 \<and>
   numeric_column (DataFrame example_rows) ''delivery_in_days'' 3
     = numeric_column (DataFrame other_rows) ''delivery_in_days'' 3 \<and>
   map_of (columns (DataFrame example_rows)) ''brand'' = None \<and>
   map_of (columns (DataFrame other_rows)) ''brand'' = Some [Str ''Acme'', Str ''Zed'', Null] \<and>
   pred_scores fallback_env (DataFrame example_rows)
     = pred_scores fallback_env (DataFrame other_rows) \<and>
   ''is_trusted_seller'' \<notin> {''price'', ''rating'', ''delivery_in_days''} \<and>
   pred_scores fallback_env
       (set_column ''is_trusted_seller'' [Num 1, Num 0, Null] (DataFrame example_rows))
     = pred_scores fallback_env (DataFrame example_rows)"
proof -
  note fb = fallback_env_fallback
  have 1: "numeric_column (DataFrame example_rows) ''price'' 1
     = numeric_column (DataFrame other_rows) ''price'' 1"
    by (simp add: eval_defs other_rows_def)
  have 2: "numeric_column (DataFrame example_rows) ''rating'' 0
     = numeric_column (DataFrame other_rows) ''rating'' 0"
    by (simp add: eval_defs other_rows_def)
  have 3: "numeric_column (DataFrame example_rows) ''delivery_in_days'' 3
     = numeric_column (DataFrame other_rows) ''delivery_in_days'' 3"
    by (simp add: eval_defs other_rows_def)
  have 4: "map_of (columns (DataFrame example_rows)) ''brand'' = None"
    by (simp add: eval_defs)
  have 5: "map_of (columns (DataFrame other_rows)) ''brand'' = Some [Str ''Acme'', Str ''Zed'', Null]"
    by (simp add: eval_defs other_rows_def)
  have 6: "''is_trusted_seller'' \<notin> {''price'', ''rating'', ''delivery_in_days''}" by simp
  note t = fallback_depends_on_three_columns [OF fb, of "DataFrame example_rows"
      "DataFrame other_rows" "''is_trusted_seller''" "[Num 1, Num 0, Null]"]
  from t 1 2 3 have 7: "pred_scores fallback_env (DataFrame example_rows)
     = pred_scores fallback_env (DataFrame other_rows)" by blast
  from t 6 have 8: "pred_scores fallback_env
       (set_column ''is_trusted_seller'' [Num 1, Num 0, Null] (DataFrame example_rows))
     = pred_scores fallback_env (DataFrame example_rows)" by blast
  show ?thesis by (intro conjI fb 1 2 3 4 5 6 7 8)
qed

section \<open>The ranking\<close>



section \<open>The request handler and the learned strategy\<close>

text \<open>
  Claim C6. For a matched catalog entry none of whose variants has an offer, the
  flattening yields no row, and the only outcome of the request is the "no offers"
  answer with an empty log of ranking calls: the ranking is never invoked.
\<close>

theorem no_offers_outcome:
  assumes q: "user_input \<noteq> []"
    and m: "find_product_by_name user_input = Some p"
    and none: "list_all (\<lambda>v. offers v = []) (variants p)"
  shows "flatten fmt p = [] \<and>
         chat fmt find_product_by_name e user_input (NoOffers (product_name p), []) \<and>
         (\<forall>r. chat fmt find_product_by_name e user_input r \<longrightarrow>
               r = (NoOffers (product_name p), []))"
proof (intro conjI allI impI)
  show fl: "flatten fmt p = []" using none by (rule flatten_empty)
  show "chat fmt find_product_by_name e user_input (NoOffers (product_name p), [])"
    using q m fl by (rule chat.no_offers)
  fix r
  assume "chat fmt find_product_by_name e user_input r"
  then show "r = (NoOffers (product_name p), [])"
    using q m fl by (auto elim: chat.cases)
qed

theorem no_offers_outcome_witness:
  "''phone y'' \<noteq> [] \<and> sample_find ''phone y'' = Some empty_product \<and>
   list_all (\<lambda>v. offers v = []) (variants empty_product) \<and>
   flatten sample_fmt empty_product = [] \<and>
   chat sample_fmt sample_find fallback_env ''phone y'' (NoOffers ''Phone Y'', [])"
proof -
  have 1: "''phone y'' \<noteq> []" by simp
  have 2: "sample_find ''phone y'' = Some empty_product" by (simp add: sample_find_def)
  have 3: "list_all (\<lambda>v. offers v = []) (variants empty_product)"
    by (simp add: empty_product_def)
  have n: "product_name empty_product = ''Phone Y''" by (simp add: empty_product_def)
  from no_offers_outcome [of "''phone y''" sample_find empty_product sample_fmt fallback_env,
      OF 1 2 3] n
  have 4: "flatten sample_fmt empty_product = []"
    and 5: "chat sample_fmt sample_find fallback_env ''phone y'' (NoOffers ''Phone Y'', [])"
    by simp_all
  show ?thesis by (intro conjI 1 2 3 4 5)
qed

text \<open>
  Claim C7. Under the learned strategy, the column selection never fails: every
  feature name the transform requires and the frame lacks is added as a column of
  missing cells, and the frame handed to the transform has exactly the transform's
  feature names, in their order. When the transform and the regressor return (one
  prediction per row), the scoring does not raise, and whenever the scoring returns,
  the number of scores is the number of input rows.
\<close>

theorem learned_scoring_fills_schema:
  assumes env: "preproc e = Some pre" "model e = Some reg"
    and lib: "transform pre (schema_frame (feature_names_in pre) df) = Inr X"
      "predict reg X = Inr preds" "length preds = length (index df)"
  shows "select_columns (feature_names_in pre) (columns (add_missing (feature_names_in pre) df))
           = Inr (columns (schema_frame (feature_names_in pre) df)) \<and>
         map fst (columns (schema_frame (feature_names_in pre) df)) = feature_names_in pre \<and>
         (\<forall>c \<in> set (feature_names_in pre). map_of (columns df) c = None \<longrightarrow>
            map_of (columns (add_missing (feature_names_in pre) df)) c
              = Some (replicate (length (index df)) Null)) \<and>
         (\<exists>df'. score_frame e df = Inr (preds, df') \<and> index df' = index df \<and>
            map_of (columns df') ''_pred_score'' = Some (map Num preds)) \<and>
         (\<forall>s df'. score_frame e df = Inr (s, df') \<longrightarrow> length s = length (index df))"
proof (intro conjI ballI impI allI)
  show "select_columns (feature_names_in pre) (columns (add_missing (feature_names_in pre) df))
           = Inr (columns (schema_frame (feature_names_in pre) df))"
    by (rule select_add_missing)
  show "map fst (columns (schema_frame (feature_names_in pre) df)) = feature_names_in pre"
    by (simp add: schema_frame_def comp_def)
  show "map_of (columns (add_missing (feature_names_in pre) df)) c
              = Some (replicate (length (index df)) Null)"
    if "c \<in> set (feature_names_in pre)" "map_of (columns df) c = None" for c
    using that by (simp add: map_of_add_missing)
  have sf: "score_frame e df = score_learned pre reg df"
    using env by (simp add: score_frame_def)
  show "\<exists>df'. score_frame e df = Inr (preds, df') \<and> index df' = index df \<and>
            map_of (columns df') ''_pred_score'' = Some (map Num preds)"
    using lib by (simp add: sf score_learned_unfold map_of_set_column)
  show "length s = length (index df)" if "score_frame e df = Inr (s, df')" for s df'
    using that score_learned_shape[of pre reg df s df'] by (simp add: sf)
qed

theorem learned_scoring_fills_schema_witness:
  "preproc learned_env = Some sample_preproc \<and> model learned_env = Some sample_model \<and>
   transform sample_preproc
       (schema_frame (feature_names_in sample_preproc) (DataFrame example_rows))
     = Inr example_matrix \<and>
   predict sample_model example_matrix = Inr learned_scores \<and>
   length learned_scores = length (index (DataFrame example_rows)) \<and>
   select_columns (feature_names_in sample_preproc)
       (columns (add_missing (feature_names_in sample_preproc) (DataFrame example_rows)))
     = Inr (columns (schema_frame (feature_names_in sample_preproc) (DataFrame example_rows))) \<and>
   map fst (columns (schema_frame (feature_names_in sample_preproc) (DataFrame example_rows)))
     = feature_names_in sample_preproc \<and>
   ''brand'' \<in> set (feature_names_in sample_preproc) \<and>
   map_of (columns (DataFrame example_rows)) ''brand'' = None \<and>
   map_of (columns (add_missing (feature_names_in sample_preproc) (DataFrame example_rows)))
       ''brand''
     = Some (replicate (length (index (DataFrame example_rows))) Null) \<and>
   (\<exists>df'. score_frame learned_env (DataFrame example_rows) = Inr (learned_scores, df') \<and>
      index df' = index (DataFrame example_rows) \<and>
      map_of (columns df') ''_pred_score'' = Some (map Num learned_scores))"
proof -
  note t = learned_scoring_fills_schema [OF learned_env_parts example_transform
      example_predict example_rows_count]
  have b: "''brand'' \<in> set (feature_names_in sample_preproc)"
    by (simp add: sample_names features_def)
  have n: "map_of (columns (DataFrame example_rows)) ''brand'' = None"
    by (simp add: DataFrame_def example_rows_def)
  from t b n have m: "map_of (columns (add_missing (feature_names_in sample_preproc)
        (DataFrame example_rows))) ''brand''
     = Some (replicate (length (index (DataFrame example_rows))) Null)" by blast
  from t have s: "select_columns (feature_names_in sample_preproc)
       (columns (add_missing (feature_names_in sample_preproc) (DataFrame example_rows)))
     = Inr (columns (schema_frame (feature_names_in sample_preproc) (DataFrame example_rows)))"
    and o: "map fst (columns (schema_frame (feature_names_in sample_preproc) (DataFrame example_rows)))
     = feature_names_in sample_preproc"
    and x: "\<exists>df'. score_frame learned_env (DataFrame example_rows) = Inr (learned_scores, df') \<and>
      index df' = index (DataFrame example_rows) \<and>
      map_of (columns df') ''_pred_score'' = Some (map Num learned_scores)"
    by blast+
  show ?thesis
    by (intro conjI learned_env_parts example_transform example_predict example_rows_count
        s o b n m x)
qed

text \<open>
  Claim C8. Scoring is idempotent: scoring again the frame a first scoring has left
  (with the columns it has overwritten and added) returns the same scores and leaves the
  frame as it is. For the learned strategy the feature names do not contain the score
  column's own name, as the trained feature list does not. (That two equal frames get
  equal scores needs no proof: the scoring is a function of the frame and the loaded
  strategy.)
\<close>

theorem scoring_idempotent:
  assumes sc: "score_frame e df = Inr (s, df')"
    and nf: "\<And>pre. preproc e = Some pre \<Longrightarrow> ''_pred_score'' \<notin> set (feature_names_in pre)"
  shows "score_frame e df' = Inr (s, df') \<and> pred_scores e df' = pred_scores e df"
proof -
  have "score_frame e df' = Inr (s, df')"
  proof (cases "preproc e = None \<or> model e = None")
    case True
    with sc show ?thesis by (simp add: score_frame_fallback score_fallback_again)
  next
    case False
    then obtain pre reg where e: "preproc e = Some pre" "model e = Some reg" by auto
    with sc have "score_learned pre reg df = Inr (s, df')" by (simp add: score_frame_def)
    from score_learned_again[OF this nf[OF e(1)]] e show ?thesis by (simp add: score_frame_def)
  qed
  with sc show ?thesis by (simp add: pred_scores_def)
qed

theorem scoring_idempotent_witness:
  "score_frame fallback_env (DataFrame example_rows) = Inr (example_scores, example_scored) \<and>
   score_frame fallback_env example_scored = Inr (example_scores, example_scored) \<and>
   pred_scores fallback_env example_scored = pred_scores fallback_env (DataFrame example_rows) \<and>
   preproc learned_env = Some sample_preproc \<and>
   ''_pred_score'' \<notin> set (feature_names_in sample_preproc) \<and>
   (\<exists>df'. score_frame learned_env (DataFrame example_rows) = Inr (learned_scores, df') \<and>
      score_frame learned_env df' = Inr (learned_scores, df') \<and>
      pred_scores learned_env df' = pred_scores learned_env (DataFrame example_rows))"
proof -
  have f: "preproc fallback_env = Some pre \<Longrightarrow> ''_pred_score'' \<notin> set (feature_names_in pre)"
    for pre by (simp add: fallback_env_def)
  note a = scoring_idempotent [OF example_score_frame f]
  have nf: "''_pred_score'' \<notin> set (feature_names_in sample_preproc)"
    by (simp add: sample_names features_def)
  then have l: "preproc learned_env = Some pre \<Longrightarrow> ''_pred_score'' \<notin> set (feature_names_in pre)"
    for pre by (simp add: learned_env_def)
  from example_learned_scored obtain df' where
    sc: "score_frame learned_env (DataFrame example_rows) = Inr (learned_scores, df')" ..
  note b = scoring_idempotent [OF sc l]
  from sc b have x: "\<exists>df'. score_frame learned_env (DataFrame example_rows) = Inr (learned_scores, df') \<and>
      score_frame learned_env df' = Inr (learned_scores, df') \<and>
      pred_scores learned_env df' = pred_scores learned_env (DataFrame example_rows)"
    by blast
  from a have a1: "score_frame fallback_env example_scored = Inr (example_scores, example_scored)"
    and a2: "pred_scores fallback_env example_scored = pred_scores fallback_env (DataFrame example_rows)"
    by blast+
  show ?thesis by (intro conjI example_score_frame a1 a2 learned_env_parts(1) nf x)
qed

text \<open>
  Claim C10. The ranking mutates the caller's frame. For a frame without a score column
  (every frame the request handler builds is one), the frame after the call differs from
  the frame passed in and carries the score column; under the fallback heuristic its
  price, rating and delivery_in_days columns hold the coerced and defaulted values;
  under the learned strategy each required feature column is present, all cells missing
  where the caller's frame had no such column.
\<close>

theorem scoring_mutates_frame:
  assumes inf: "infer_topk e df k (Inr (topk, df'))"
    and fresh: "map_of (columns df) ''_pred_score'' = None"
  shows "df' \<noteq> df \<and> index df' = index df \<and>
    (\<exists>s. pred_scores e df = Inr s \<and> map_of (columns df') ''_pred_score'' = Some (map Num s)) \<and>
    (preproc e = None \<or> model e = None \<longrightarrow>
       (\<exists>P R D. numeric_column df ''price'' 1 = Inr P \<and>
                numeric_column df ''rating'' 0 = Inr R \<and>
                numeric_column df ''delivery_in_days'' 3 = Inr D \<and>
                map_of (columns df') ''price'' = Some (map Num P) \<and>
                map_of (columns df') ''rating'' = Some (map Num R) \<and>
                map_of (columns df') ''delivery_in_days'' = Some (map Num D))) \<and>
    (\<forall>pre reg. preproc e = Some pre \<and> model e = Some reg \<longrightarrow>
       (\<forall>c \<in> set (feature_names_in pre). c \<noteq> ''_pred_score'' \<longrightarrow>
          map_of (columns df') c =
            Some (case map_of (columns df) c of
                    Some vs \<Rightarrow> vs
                  | None \<Rightarrow> replicate (length (index df)) Null)))"
proof -
  from inf obtain s where sc: "score_frame e df = Inr (s, df')"
    by (auto elim: infer_topk.cases)
  have col: "map_of (columns df') ''_pred_score'' = Some (map Num s)"
    using sc by (rule score_frame_pred_column)
  with fresh have neq: "df' \<noteq> df" by auto
  have ps: "pred_scores e df = Inr s" using sc by (simp add: pred_scores_def)
  have fb: "\<exists>P R D. numeric_column df ''price'' 1 = Inr P \<and>
                numeric_column df ''rating'' 0 = Inr R \<and>
                numeric_column df ''delivery_in_days'' 3 = Inr D \<and>
                map_of (columns df') ''price'' = Some (map Num P) \<and>
                map_of (columns df') ''rating'' = Some (map Num R) \<and>
                map_of (columns df') ''delivery_in_days'' = Some (map Num D)"
    if "preproc e = None \<or> model e = None"
  proof -
    from sc that have "score_fallback df = Inr (s, df')" by (simp add: score_frame_fallback)
    then show ?thesis
      by (rule score_fallback_columns) (simp add: map_of_set_column)
  qed
  have idx_fb: "index df' = index df" if "preproc e = None \<or> model e = None"
  proof -
    from sc that have "score_fallback df = Inr (s, df')" by (simp add: score_frame_fallback)
    then show ?thesis by (rule score_fallback_columns) simp
  qed
  have ln: "index df' = index df \<and> map_of (columns df') c =
            Some (case map_of (columns df) c of
                    Some vs \<Rightarrow> vs
                  | None \<Rightarrow> replicate (length (index df)) Null)"
    if e: "preproc e = Some pre" "model e = Some reg"
      and c: "c \<in> set (feature_names_in pre) \<longrightarrow> c \<noteq> ''_pred_score''"
         "c \<in> set (feature_names_in pre)" for pre reg c
  proof -
    from sc e have "score_learned pre reg df = Inr (s, df')" by (simp add: score_frame_def)
    then have "df' = set_column ''_pred_score'' (map Num s) (add_missing (feature_names_in pre) df)"
      by (auto simp: score_learned_unfold split: sum.splits if_splits)
    with c show ?thesis
      by (simp add: map_of_set_column map_of_add_missing split: option.splits)
  qed
  have idx: "index df' = index df"
  proof (cases "preproc e = None \<or> model e = None")
    case True
    then show ?thesis by (rule idx_fb)
  next
    case False
    then obtain pre reg where e: "preproc e = Some pre" "model e = Some reg" by auto
    with sc have "score_learned pre reg df = Inr (s, df')" by (simp add: score_frame_def)
    then show ?thesis by (simp add: score_learned_shape)
  qed
  from neq idx ps col fb ln show ?thesis by blast
qed

theorem scoring_mutates_frame_witness:
  "(\<exists>topk df'.
      infer_topk fallback_env (DataFrame (flatten sample_fmt sample_product)) 3 (Inr (topk, df')) \<and>
      map_of (columns (DataFrame (flatten sample_fmt sample_product))) ''_pred_score'' = None \<and>
      map_of (columns (DataFrame (flatten sample_fmt sample_product))) ''price''
        = Some [Num 1000, Null] \<and>
      df' \<noteq> DataFrame (flatten sample_fmt sample_product) \<and>
      map_of (columns df') ''price'' = Some [Num 1000, Num 1] \<and>
      map_of (columns df') ''rating'' = Some [Num (9 / 2), Num 3] \<and>
      map_of (columns df') ''delivery_in_days'' = Some [Num 2, Num 3] \<and>
      (\<exists>s. map_of (columns df') ''_pred_score'' = Some (map Num s))) \<and>
   (\<exists>topk df'.
      infer_topk learned_env (DataFrame example_rows) 3 (Inr (topk, df')) \<and>
      map_of (columns (DataFrame example_rows)) ''_pred_score'' = None \<and>
      map_of (columns (DataFrame example_rows)) ''brand'' = None \<and>
      df' \<noteq> DataFrame example_rows \<and>
      map_of (columns df') ''brand'' = Some [Null, Null, Null] \<and>
      map_of (columns df') ''_pred_score'' = Some (map Num learned_scores))"
proof -
  let ?cf = "DataFrame (flatten sample_fmt sample_product)"
  let ?ex = "DataFrame example_rows"
  from chat_frame_scored obtain s df' where sc: "score_frame fallback_env ?cf = Inr (s, df')"
    by blast
  have inf: "infer_topk fallback_env ?cf 3 (Inr (head 3 (take_rows (stable_order s) df'), df'))"
    using sc sort_values_desc_stable by (rule infer_topk.ranked)
  have fresh: "map_of (columns ?cf) ''_pred_score'' = None" by (rule chat_frame_fresh)
  have before: "map_of (columns ?cf) ''price'' = Some [Num 1000, Null]"
    by (simp add: DataFrame_def flatten_def sample_product_def offer_row_def dict_get_def)
  note t = scoring_mutates_frame [OF inf fresh]
  from t fallback_env_fallback obtain P R D where
    nc: "numeric_column ?cf ''price'' 1 = Inr P" "numeric_column ?cf ''rating'' 0 = Inr R"
      "numeric_column ?cf ''delivery_in_days'' 3 = Inr D"
    and mc: "map_of (columns df') ''price'' = Some (map Num P)"
      "map_of (columns df') ''rating'' = Some (map Num R)"
      "map_of (columns df') ''delivery_in_days'' = Some (map Num D)"
    by blast
  from nc have "P = [1000, 1]" "R = [9 / 2, 3]" "D = [2, 3]"
    by (simp_all only: chat_frame_columns sum.inject)
  with mc have cols: "map_of (columns df') ''price'' = Some [Num 1000, Num 1]"
    "map_of (columns df') ''rating'' = Some [Num (9 / 2), Num 3]"
    "map_of (columns df') ''delivery_in_days'' = Some [Num 2, Num 3]"
    by simp_all
  from t have neq: "df' \<noteq> ?cf"
    and col: "\<exists>s. map_of (columns df') ''_pred_score'' = Some (map Num s)" by blast+
  from inf fresh before neq cols col
  have A: "\<exists>topk df'.
      infer_topk fallback_env ?cf 3 (Inr (topk, df')) \<and>
      map_of (columns ?cf) ''_pred_score'' = None \<and>
      map_of (columns ?cf) ''price'' = Some [Num 1000, Null] \<and>
      df' \<noteq> ?cf \<and>
      map_of (columns df') ''price'' = Some [Num 1000, Num 1] \<and>
      map_of (columns df') ''rating'' = Some [Num (9 / 2), Num 3] \<and>
      map_of (columns df') ''delivery_in_days'' = Some [Num 2, Num 3] \<and>
      (\<exists>s. map_of (columns df') ''_pred_score'' = Some (map Num s))"
    by (intro exI[of _ "head 3 (take_rows (stable_order s) df')"] exI[of _ df'] conjI)
  from example_learned_scored obtain lf where
    lsc: "score_frame learned_env ?ex = Inr (learned_scores, lf)" ..
  have linf: "infer_topk learned_env ?ex 3
      (Inr (head 3 (take_rows (stable_order learned_scores) lf), lf))"
    using lsc sort_values_desc_stable by (rule infer_topk.ranked)
  have lfresh: "map_of (columns ?ex) ''_pred_score'' = None"
    by (simp add: DataFrame_def example_rows_def)
  have nb: "map_of (columns ?ex) ''brand'' = None"
    by (simp add: DataFrame_def example_rows_def)
  have b: "''brand'' \<in> set (feature_names_in sample_preproc)" "''brand'' \<noteq> ''_pred_score''"
    by (simp_all add: sample_names features_def)
  have n3: "replicate (length (index ?ex)) Null = [Null, Null, Null]"
    by (simp add: DataFrame_def example_rows_def numeral_3_eq_3)
  note u = scoring_mutates_frame [OF linf lfresh]
  from u have all: "\<forall>pre reg. preproc learned_env = Some pre \<and> model learned_env = Some reg \<longrightarrow>
       (\<forall>c \<in> set (feature_names_in pre). c \<noteq> ''_pred_score'' \<longrightarrow>
          map_of (columns lf) c =
            Some (case map_of (columns ?ex) c of
                    Some vs \<Rightarrow> vs
                  | None \<Rightarrow> replicate (length (index ?ex)) Null))"
    by (elim conjE)
  from all[rule_format, OF conjI[OF learned_env_parts] b]
  have "map_of (columns lf) ''brand'' =
      Some (case map_of (columns ?ex) ''brand'' of Some vs \<Rightarrow> vs
            | None \<Rightarrow> replicate (length (index ?ex)) Null)" .
  with nb n3 have lb: "map_of (columns lf) ''brand'' = Some [Null, Null, Null]" by simp
  from u have lneq: "lf \<noteq> ?ex" by (elim conjE)
  have lcol: "map_of (columns lf) ''_pred_score'' = Some (map Num learned_scores)"
    using lsc by (rule score_frame_pred_column)
  from linf lfresh nb lneq lb lcol
  have B: "\<exists>topk df'.
      infer_topk learned_env ?ex 3 (Inr (topk, df')) \<and>
      map_of (columns ?ex) ''_pred_score'' = None \<and>
      map_of (columns ?ex) ''brand'' = None \<and>
      df' \<noteq> ?ex \<and>
      map_of (columns df') ''brand'' = Some [Null, Null, Null] \<and>
      map_of (columns df') ''_pred_score'' = Some (map Num learned_scores)"
    by (intro exI[of _ "head 3 (take_rows (stable_order learned_scores) lf)"] exI[of _ lf] conjI)
  from A B show ?thesis by (rule conjI)
qed

end
